theory Spec2Isabelle
  imports Main
begin

section \<open>Python values used by the script\<close>

text \<open>
  A Python \<open>str\<close> is a sequence of Unicode code points, and \<open>text[:200]\<close> counts code
  points. The source prints two characters outside ASCII, so a string is modelled as the
  list of its code points; \<open>ascii\<close> embeds an ASCII literal.
\<close>

type_synonym pystr = "nat list"

definition ascii :: "string \<Rightarrow> pystr" where
  "ascii s = map of_char s"

text \<open>U+274C (cross mark) and U+23F0 (alarm clock), the two markers of the source.\<close>

definition cross_mark :: pystr where
  "cross_mark = [0x274C]"

definition alarm_clock :: pystr where
  "alarm_clock = [0x23F0]"

text \<open>\<open>str\<close> of a Python \<open>int\<close>, as the f-string formats \<open>response.status_code\<close>.\<close>

fun digits :: "nat \<Rightarrow> pystr" where
  "digits n = (if n < 10 then [48 + n] else digits (n div 10) @ [48 + n mod 10])"

declare digits.simps [simp del]

definition str_int :: "int \<Rightarrow> pystr" where
  "str_int i = (if i < 0 then 45 # digits (nat (- i)) else digits (nat i))"

text \<open>
  An exception carries the method resolution order of its class and the text \<open>str(e)\<close>.
  The source names three classes in its \<open>except\<close> clauses; every other class is
  \<open>OtherClass\<close> with its name. An \<open>except C\<close> clause matches \<open>e\<close> when
  \<open>isinstance(e, C)\<close>, that is when \<open>C\<close> occurs in the resolution order.
\<close>

datatype pyclass = BaseException | Exception | ConnectionError | Timeout | OtherClass string

record exn =
  mro :: "pyclass list"
  message :: pystr

definition isinstance :: "exn \<Rightarrow> pyclass \<Rightarrow> bool" where
  "isinstance e c = (c \<in> set (mro e))"

text \<open>The attributes of \<open>requests.Response\<close> that the script reads.\<close>

record response =
  status_code :: int
  headers :: "(pystr \<times> pystr) list"
  response_text :: pystr

section \<open>The environment\<close>

text \<open>
  \<open>requests.get(url, timeout=t)\<close> either returns a response or raises; the network is a
  state \<open>'w\<close> that each call may change. \<open>repr_dict\<close> is the text Python gives for
  \<open>dict(response.headers)\<close> inside an f-string. Both belong to the Python runtime and the
  \<open>requests\<close> library, so they are parameters. Writing to standard output is taken to
  succeed.
\<close>

datatype outcome = Returns response | Raises exn

record 'w runtime =
  requests_get :: "'w \<Rightarrow> pystr \<Rightarrow> int \<Rightarrow> outcome \<times> 'w"
  repr_dict :: "(pystr \<times> pystr) list \<Rightarrow> pystr"

text \<open>What the script does to the outside, in order: a request sent, a line printed.\<close>

datatype event = Request pystr int | Print pystr

definition printed :: "event list \<Rightarrow> pystr list" where
  "printed evs = concat (map (\<lambda>ev. case ev of Print l \<Rightarrow> [l] | Request u t \<Rightarrow> []) evs)"

definition requested :: "event list \<Rightarrow> (pystr \<times> int) list" where
  "requested evs = concat (map (\<lambda>ev. case ev of Print l \<Rightarrow> [] | Request u t \<Rightarrow> [(u, t)]) evs)"

section \<open>test_server\<close>

text \<open>The f-strings of the source, one definition for each.\<close>

definition testing_line :: "pystr \<Rightarrow> pystr" where
  "testing_line url = ascii ''Testing '' @ url @ ascii ''...''"

definition status_line :: "response \<Rightarrow> pystr" where
  "status_line r = ascii ''  Status: '' @ str_int (status_code r)"

definition headers_line :: "'w runtime \<Rightarrow> response \<Rightarrow> pystr" where
  "headers_line rt r = ascii ''  Headers: '' @ repr_dict rt (headers r)"

definition content_line :: "response \<Rightarrow> pystr" where
  "content_line r = ascii ''  Content (first 200 chars): '' @ take 200 (response_text r)"

definition refused_line :: pystr where
  "refused_line = ascii ''  '' @ cross_mark @ ascii '' Connection refused''"

definition timeout_line :: pystr where
  "timeout_line = ascii ''  '' @ alarm_clock @ ascii '' Timeout''"

definition error_line :: "exn \<Rightarrow> pystr" where
  "error_line e = ascii ''  '' @ cross_mark @ ascii '' Error: '' @ message e"

text \<open>
  The \<open>try\<close> block of one iteration: the exception raised, if any, the events, the
  network. \<open>if response.text:\<close> tests that the string is not empty.
\<close>

definition try_block :: "'w runtime \<Rightarrow> 'w \<Rightarrow> pystr \<Rightarrow> exn option \<times> event list \<times> 'w" where
  "try_block rt w url =
     (case requests_get rt w url 5 of
        (Returns r, w') \<Rightarrow>
          (None,
           [Print (testing_line url),
            Request url 5,
            Print (status_line r),
            Print (headers_line rt r)]
           @ (if response_text r \<noteq> [] then [Print (content_line r)] else [])
           @ [Print []],
           w')
      | (Raises e, w') \<Rightarrow>
          (Some e, [Print (testing_line url), Request url 5], w'))"

text \<open>The three \<open>except\<close> clauses, tried in the order of the source.\<close>

datatype clause = Except_ConnectionError | Except_Timeout | Except_Exception

definition matching_clause :: "exn \<Rightarrow> clause option" where
  "matching_clause e =
     (if isinstance e ConnectionError then Some Except_ConnectionError
      else if isinstance e Timeout then Some Except_Timeout
      else if isinstance e Exception then Some Except_Exception
      else None)"

fun handler :: "clause \<Rightarrow> exn \<Rightarrow> event list" where
  "handler Except_ConnectionError e = [Print refused_line]"
| "handler Except_Timeout e = [Print timeout_line]"
| "handler Except_Exception e = [Print (error_line e)]"

text \<open>
  One iteration of the \<open>for\<close> loop: the \<open>try\<close> statement, then the final \<open>print()\<close>.
  An exception that no clause matches leaves the loop; the final \<open>print()\<close> is not reached.
\<close>

definition loop_body :: "'w runtime \<Rightarrow> 'w \<Rightarrow> pystr \<Rightarrow> exn option \<times> event list \<times> 'w" where
  "loop_body rt w url =
     (case try_block rt w url of
        (None, evs, w') \<Rightarrow> (None, evs @ [Print []], w')
      | (Some e, evs, w') \<Rightarrow>
          (case matching_clause e of
             Some c \<Rightarrow> (None, evs @ handler c e @ [Print []], w')
           | None \<Rightarrow> (Some e, evs, w')))"

fun for_loop :: "'w runtime \<Rightarrow> 'w \<Rightarrow> pystr list \<Rightarrow> exn option \<times> event list \<times> 'w" where
  "for_loop rt w [] = (None, [], w)"
| "for_loop rt w (url # urls) =
     (case loop_body rt w url of
        (Some e, evs, w') \<Rightarrow> (Some e, evs, w')
      | (None, evs, w') \<Rightarrow>
          (case for_loop rt w' urls of (r, evs', w'') \<Rightarrow> (r, evs @ evs', w'')))"

definition urls_to_test :: "pystr list" where
  "urls_to_test =
     [ascii ''http://localhost:3000'',
      ascii ''http://localhost:3000/ping'',
      ascii ''http://localhost:3000/api/health'',
      ascii ''http://localhost:3001'',
      ascii ''http://localhost:3001/ping'']"

definition test_server :: "'w runtime \<Rightarrow> 'w \<Rightarrow> exn option \<times> event list \<times> 'w" where
  "test_server rt w = for_loop rt w urls_to_test"

text \<open>
  The script as a process: it calls \<open>test_server()\<close> and ends. When the call returns the
  exit status is 0; an exception that leaves \<open>test_server\<close> ends the process uncaught.
\<close>

datatype exit_status = Exit_0 | Uncaught exn

definition main :: "'w runtime \<Rightarrow> 'w \<Rightarrow> exit_status \<times> event list \<times> 'w" where
  "main rt w =
     (case test_server rt w of
        (None, evs, w') \<Rightarrow> (Exit_0, evs, w')
      | (Some e, evs, w') \<Rightarrow> (Uncaught e, evs, w'))"

section \<open>Sample environments\<close>

text \<open>
  Exceptions with the resolution orders that \<open>requests\<close> and Python give them, and a
  few networks, for evaluating the script on concrete runs.
\<close>

definition connection_refused :: exn where
  "connection_refused =
     \<lparr>mro = [ConnectionError, OtherClass ''RequestException'', OtherClass ''OSError'',
              Exception, BaseException],
      message = ascii ''Max retries exceeded''\<rparr>"


definition read_timeout :: exn where
  "read_timeout =
     \<lparr>mro = [OtherClass ''ReadTimeout'', Timeout, OtherClass ''RequestException'',
              OtherClass ''OSError'', Exception, BaseException],
      message = ascii ''Read timed out. (read timeout=5)''\<rparr>"


definition keyboard_interrupt :: exn where
  "keyboard_interrupt = \<lparr>mro = [OtherClass ''KeyboardInterrupt'', BaseException], message = []\<rparr>"

definition pong_response :: response where
  "pong_response =
     \<lparr>status_code = 200,
      headers = [(ascii ''Content-Type'', ascii ''text/plain'')],
      response_text = ascii ''pong''\<rparr>"

definition long_response :: response where
  "long_response = \<lparr>status_code = 200, headers = [], response_text = replicate 250 97\<rparr>"


text \<open>
  A rendering of a dictionary that agrees with Python's on strings without quotes,
  backslashes and unprintable characters.
\<close>

definition quoted :: "pystr \<Rightarrow> pystr" where
  "quoted s = 39 # s @ [39]"

fun repr_items :: "(pystr \<times> pystr) list \<Rightarrow> pystr" where
  "repr_items [] = []"
| "repr_items [(k, v)] = quoted k @ ascii '': '' @ quoted v"
| "repr_items ((k, v) # kv # kvs) = quoted k @ ascii '': '' @ quoted v @ ascii '', '' @ repr_items (kv # kvs)"

definition plain_repr :: "(pystr \<times> pystr) list \<Rightarrow> pystr" where
  "plain_repr hs = 123 # repr_items hs @ [125]"

text \<open>A network where every request has the same outcome.\<close>

definition always :: "outcome \<Rightarrow> unit runtime" where
  "always oc = \<lparr>requests_get = (\<lambda>w url t. (oc, ())), repr_dict = plain_repr\<rparr>"

text \<open>A development server on port 3000 that answers \<open>pong\<close>, and nothing on any other port.\<close>

definition dev_get :: "unit \<Rightarrow> pystr \<Rightarrow> int \<Rightarrow> outcome \<times> unit" where
  "dev_get w url t =
     (if take 21 url = ascii ''http://localhost:3000'' then (Returns pong_response, ())
      else (Raises connection_refused, ()))"

definition dev_rt :: "unit runtime" where
  "dev_rt = \<lparr>requests_get = dev_get, repr_dict = plain_repr\<rparr>"

text \<open>
  A network whose state counts the requests made: the first request gets the first
  outcome, every later request the second.
\<close>

definition first_then_get :: "outcome \<Rightarrow> outcome \<Rightarrow> nat \<Rightarrow> pystr \<Rightarrow> int \<Rightarrow> outcome \<times> nat" where
  "first_then_get oc1 oc2 n url t = (if n = 0 then oc1 else oc2, Suc n)"

definition first_then :: "outcome \<Rightarrow> outcome \<Rightarrow> nat runtime" where
  "first_then oc1 oc2 = \<lparr>requests_get = first_then_get oc1 oc2, repr_dict = plain_repr\<rparr>"
definition system_exit :: exn where
  "system_exit = \<lparr>mro = [OtherClass ''SystemExit'', BaseException], message = ascii ''1''\<rparr>"

section \<open>Notions for the proofs about whole runs\<close>

text \<open>
  The outcomes that the network gives to the requests of a run, target after target,
  when the run reaches every target: the outcome of the first request, then those from
  the state the first request leaves.
\<close>

fun outcomes :: "'w runtime \<Rightarrow> 'w \<Rightarrow> pystr list \<Rightarrow> outcome list" where
  "outcomes rt w [] = []"
| "outcomes rt w (url # urls) =
     (case requests_get rt w url 5 of (oc, w') \<Rightarrow> oc # outcomes rt w' urls)"

text \<open>
  The events of an iteration whose request has the outcome \<open>oc\<close>, when the exception
  of a failed request derives from \<open>Exception\<close>; \<open>loop_body_events\<close> proves that this
  is what \<open>loop_body\<close> does.
\<close>

definition iteration_events :: "'w runtime \<Rightarrow> pystr \<Rightarrow> outcome \<Rightarrow> event list" where
  "iteration_events rt u oc =
     [Print (ascii ''Testing '' @ u @ ascii ''...''), Request u 5]
     @ (case oc of
          Returns r \<Rightarrow>
            [Print (ascii ''  Status: '' @ str_int (status_code r)),
             Print (ascii ''  Headers: '' @ repr_dict rt (headers r))]
            @ (if response_text r \<noteq> []
               then [Print (ascii ''  Content (first 200 chars): '' @ take 200 (response_text r))]
               else [])
            @ [Print []]
        | Raises e \<Rightarrow>
            [Print (if isinstance e ConnectionError
                    then ascii ''  '' @ [0x274C] @ ascii '' Connection refused''
                    else if isinstance e Timeout
                    then ascii ''  '' @ [0x23F0] @ ascii '' Timeout''
                    else ascii ''  '' @ [0x274C] @ ascii '' Error: '' @ message e)])
     @ [Print []]"

section \<open>One iteration, case by case\<close>

lemma loop_body_returns:
  assumes "requests_get rt w url 5 = (Returns r, w')"
  shows "loop_body rt w url =
           (None,
            [Print (testing_line url), Request url 5, Print (status_line r), Print (headers_line rt r)]
            @ (if response_text r \<noteq> [] then [Print (content_line r)] else [])
            @ [Print [], Print []],
            w')"
  using assms by (simp add: loop_body_def try_block_def)

lemma loop_body_caught:
  assumes "requests_get rt w url 5 = (Raises e, w')" and "matching_clause e = Some c"
  shows "loop_body rt w url =
           (None, [Print (testing_line url), Request url 5] @ handler c e @ [Print []], w')"
  using assms by (simp add: loop_body_def try_block_def)

lemma loop_body_uncaught:
  assumes "requests_get rt w url 5 = (Raises e, w')" and "matching_clause e = None"
  shows "loop_body rt w url = (Some e, [Print (testing_line url), Request url 5], w')"
  using assms by (simp add: loop_body_def try_block_def)

lemma for_loop_append:
  "for_loop rt w pre = (None, evs, w1) \<Longrightarrow>
   for_loop rt w (pre @ rest) =
     (case for_loop rt w1 rest of (r, evs', w'') \<Rightarrow> (r, evs @ evs', w''))"
proof (induction pre arbitrary: w evs)
  case Nil
  then show ?case by (simp split: prod.splits)
next
  case (Cons u us)
  then show ?case
    by (auto split: prod.splits option.splits)
qed

lemma ascii_append: "ascii (a @ b) = ascii a @ ascii b"
  by (simp add: ascii_def)

lemma str_int_200: "str_int 200 = ascii ''200''"
  by (simp add: str_int_def digits.simps ascii_def)

lemma lines_distinct:
  "refused_line \<noteq> timeout_line" "refused_line \<noteq> error_line e" "timeout_line \<noteq> error_line e"
  "refused_line \<noteq> []" "timeout_line \<noteq> []" "error_line e \<noteq> []"
  "testing_line u \<noteq> []" "testing_line u \<noteq> refused_line" "testing_line u \<noteq> timeout_line"
  "testing_line u \<noteq> error_line e"
  by (simp_all add: refused_line_def timeout_line_def error_line_def testing_line_def ascii_def
        cross_mark_def alarm_clock_def)

lemma line_texts:
  "testing_line u = ascii ''Testing '' @ u @ ascii ''...''"
  "refused_line = ascii ''  '' @ [0x274C] @ ascii '' Connection refused''"
  "timeout_line = ascii ''  '' @ [0x23F0] @ ascii '' Timeout''"
  "error_line e = ascii ''  '' @ [0x274C] @ ascii '' Error: '' @ message e"
  by (simp_all add: testing_line_def refused_line_def timeout_line_def error_line_def
        cross_mark_def alarm_clock_def)

lemma loop_body_events:
  assumes "requests_get rt w u 5 = (oc, w')"
    and "\<forall>e. oc = Raises e \<longrightarrow> isinstance e Exception"
  shows "loop_body rt w u = (None, iteration_events rt u oc, w')"
proof (cases oc)
  case (Returns r)
  show ?thesis
    using loop_body_returns [of rt w u r w'] assms(1) Returns
    by (simp add: iteration_events_def line_texts status_line_def headers_line_def
          content_line_def)
next
  case (Raises e)
  have ex: "isinstance e Exception"
    using assms(2) Raises by simp
  show ?thesis
  proof (cases "isinstance e ConnectionError")
    case True
    have "matching_clause e = Some Except_ConnectionError"
      using True by (simp add: matching_clause_def)
    then show ?thesis
      using loop_body_caught [of rt w u e w' Except_ConnectionError] assms(1) Raises True
      by (simp add: iteration_events_def line_texts)
  next
    case False
    note nc = False
    show ?thesis
    proof (cases "isinstance e Timeout")
      case True
      have "matching_clause e = Some Except_Timeout"
        using nc True by (simp add: matching_clause_def)
      then show ?thesis
        using loop_body_caught [of rt w u e w' Except_Timeout] assms(1) Raises nc True
        by (simp add: iteration_events_def line_texts)
    next
      case False
      have "matching_clause e = Some Except_Exception"
        using nc False ex by (simp add: matching_clause_def)
      then show ?thesis
        using loop_body_caught [of rt w u e w' Except_Exception] assms(1) Raises nc False
        by (simp add: iteration_events_def line_texts)
    qed
  qed
qed

lemma length_outcomes: "length (outcomes rt w urls) = length urls"
  by (induction urls arbitrary: w) (simp_all split: prod.splits)

lemma for_loop_events:
  assumes "\<forall>e. Raises e \<in> set (outcomes rt w urls) \<longrightarrow> isinstance e Exception"
  shows "for_loop rt w urls =
           (None,
            concat (map (\<lambda>(u, oc). iteration_events rt u oc) (zip urls (outcomes rt w urls))),
            snd (snd (for_loop rt w urls)))"
  using assms
proof (induction urls arbitrary: w)
  case Nil
  show ?case by simp
next
  case (Cons u us)
  obtain oc w' where g: "requests_get rt w u 5 = (oc, w')"
    by (cases "requests_get rt w u 5")
  have o: "outcomes rt w (u # us) = oc # outcomes rt w' us"
    using g by simp
  have p: "\<forall>e. Raises e \<in> set (oc # outcomes rt w' us) \<longrightarrow> isinstance e Exception"
    using Cons.prems by (simp only: o)
  have h1: "\<forall>e. oc = Raises e \<longrightarrow> isinstance e Exception"
    using p by auto
  have h2: "\<forall>e. Raises e \<in> set (outcomes rt w' us) \<longrightarrow> isinstance e Exception"
    using p by auto
  have b: "loop_body rt w u = (None, iteration_events rt u oc, w')"
    using loop_body_events [OF g h1] .
  obtain w'' where f: "for_loop rt w' us =
      (None, concat (map (\<lambda>(u, oc). iteration_events rt u oc) (zip us (outcomes rt w' us))), w'')"
    using Cons.IH [OF h2] by blast
  show ?case
    by (simp add: b f g)
qed

lemma requested_iteration_events: "requested (iteration_events rt u oc) = [(u, 5)]"
  by (cases oc) (simp_all add: iteration_events_def requested_def)

lemma requested_concat_iterations:
  "length ocs = length urls \<Longrightarrow>
   requested (concat (map (\<lambda>(u, oc). iteration_events rt u oc) (zip urls ocs)))
     = map (\<lambda>u. (u, 5)) urls"
proof (induction urls arbitrary: ocs)
  case Nil
  show ?case by (simp add: requested_def)
next
  case (Cons u us)
  obtain oc ocs' where ocs: "ocs = oc # ocs'"
    using Cons.prems by (cases ocs) simp_all
  have "length ocs' = length us"
    using Cons.prems ocs by simp
  then have ih: "requested (concat (map (\<lambda>(u, oc). iteration_events rt u oc) (zip us ocs')))
                   = map (\<lambda>u. (u, 5)) us"
    using Cons.IH by blast
  have ap: "\<And>a b. requested (a @ b) = requested a @ requested b"
    by (simp add: requested_def)
  show ?case
    by (simp add: ocs ap requested_iteration_events ih)
qed


section \<open>Classification of failures\<close>

text \<open>
  C2. When the request to a target raises an instance of
  \<open>requests.exceptions.ConnectionError\<close> (what the library raises for a refused
  connection), the first \<open>except\<close> clause is the one taken: the iteration prints the
  line for the URL, then two spaces, U+274C and \<open>Connection refused\<close>, then a blank
  line; it prints neither the timeout marker nor the other-error line, and it ends
  normally.
\<close>

theorem refused_prints_connection_refused:
  assumes "requests_get rt w url 5 = (Raises e, w')"
    and "isinstance e ConnectionError"
  shows "matching_clause e = Some Except_ConnectionError
       \<and> loop_body rt w url =
           (None,
            [Print (ascii ''Testing '' @ url @ ascii ''...''),
             Request url 5,
             Print (ascii ''  '' @ [0x274C] @ ascii '' Connection refused''),
             Print []],
            w')
       \<and> ascii ''  '' @ [0x23F0] @ ascii '' Timeout''
           \<notin> set (printed (fst (snd (loop_body rt w url))))
       \<and> ascii ''  '' @ [0x274C] @ ascii '' Error: '' @ message e
           \<notin> set (printed (fst (snd (loop_body rt w url))))"
proof -
  have c: "matching_clause e = Some Except_ConnectionError"
    using assms(2) by (simp add: matching_clause_def)
  have b: "loop_body rt w url =
           (None, [Print (testing_line url), Request url 5, Print refused_line, Print []], w')"
    using loop_body_caught [OF assms(1) c] by simp
  have n: "timeout_line \<notin> set (printed (fst (snd (loop_body rt w url))))
         \<and> error_line e \<notin> set (printed (fst (snd (loop_body rt w url))))"
    using b lines_distinct lines_distinct [symmetric] by (simp add: printed_def)
  show ?thesis
    using c b n by (simp only: line_texts simp_thms)
qed

theorem refused_prints_connection_refused_witness:
  "matching_clause connection_refused = Some Except_ConnectionError
   \<and> loop_body (always (Raises connection_refused)) () (ascii ''http://localhost:3001'') =
       (None,
        [Print (ascii ''Testing http://localhost:3001...''),
         Request (ascii ''http://localhost:3001'') 5,
         Print (ascii ''  '' @ [0x274C] @ ascii '' Connection refused''),
         Print []],
        ())"
  using refused_prints_connection_refused
          [of "always (Raises connection_refused)" "()" "ascii ''http://localhost:3001''"
              connection_refused "()"]
  by (simp add: always_def connection_refused_def isinstance_def ascii_def)

lemma for_loop_requests_timeout:
  "list_all (\<lambda>p. snd p = 5) (requested (fst (snd (for_loop rt w urls))))"
proof (induction urls arbitrary: w)
  case Nil
  show ?case by (simp add: requested_def)
next
  case (Cons u us)
  obtain oc w' where g: "requests_get rt w u 5 = (oc, w')"
    by (cases "requests_get rt w u 5")
  obtain r evs' w'' where f: "for_loop rt w' us = (r, evs', w'')"
    by (cases "for_loop rt w' us") 
  have ih: "list_all (\<lambda>p. snd p = 5) (requested evs')"
    using Cons.IH [of w'] f by simp
  show ?case
  proof (cases oc)
    case (Returns resp)
    show ?thesis
      using loop_body_returns [of rt w u resp w'] g Returns f ih
      by (simp add: requested_def)
  next
    case (Raises e)
    show ?thesis
    proof (cases "matching_clause e")
      case None
      show ?thesis
        using loop_body_uncaught [of rt w u e w'] g Raises None
        by (simp add: requested_def)
    next
      case (Some c)
      show ?thesis
        using loop_body_caught [of rt w u e w' c] g Raises Some f ih
        by (cases c) (simp_all add: requested_def)
    qed
  qed
qed

text \<open>
  C3. When the request to a target raises an instance of \<open>requests.exceptions.Timeout\<close>
  that is not a \<open>ConnectionError\<close> (what the library raises when a connected peer sends
  nothing within the timeout), the second \<open>except\<close> clause is taken: the iteration prints
  the line for the URL, then two spaces, U+23F0 and \<open>Timeout\<close>, then a blank line, and
  ends normally. The timeout is an argument of each request: whatever the targets and
  whatever happened to the earlier ones, every request of a run is sent with the
  timeout 5.
\<close>

theorem silent_peer_prints_timeout:
  assumes "requests_get rt w url 5 = (Raises e, w')"
    and "\<not> isinstance e ConnectionError"
    and "isinstance e Timeout"
  shows "matching_clause e = Some Except_Timeout
       \<and> loop_body rt w url =
           (None,
            [Print (ascii ''Testing '' @ url @ ascii ''...''),
             Request url 5,
             Print (ascii ''  '' @ [0x23F0] @ ascii '' Timeout''),
             Print []],
            w')
       \<and> list_all (\<lambda>p. snd p = 5) (requested (fst (snd (for_loop rt w0 urls))))"
proof -
  have c: "matching_clause e = Some Except_Timeout"
    using assms(2,3) by (simp add: matching_clause_def)
  have b: "loop_body rt w url =
           (None, [Print (testing_line url), Request url 5, Print timeout_line, Print []], w')"
    using loop_body_caught [OF assms(1) c] by simp
  have b': "loop_body rt w url =
           (None,
            [Print (ascii ''Testing '' @ url @ ascii ''...''),
             Request url 5,
             Print (ascii ''  '' @ [0x23F0] @ ascii '' Timeout''),
             Print []],
            w')"
    using b by (simp only: line_texts)
  show ?thesis
    using c b' for_loop_requests_timeout [of rt w0 urls] by blast
qed

theorem silent_peer_prints_timeout_witness:
  "loop_body (first_then (Raises read_timeout) (Returns pong_response)) 0
       (ascii ''http://localhost:3000'') =
     (None,
      [Print (ascii ''Testing http://localhost:3000...''),
       Request (ascii ''http://localhost:3000'') 5,
       Print (ascii ''  '' @ [0x23F0] @ ascii '' Timeout''),
       Print []],
      1)
   \<and> requested (fst (snd (for_loop (first_then (Raises read_timeout) (Returns pong_response)) 0
                 [ascii ''http://localhost:3000'', ascii ''http://localhost:3000/ping''])))
       = [(ascii ''http://localhost:3000'', 5), (ascii ''http://localhost:3000/ping'', 5)]"
proof -
  have g: "requests_get (first_then (Raises read_timeout) (Returns pong_response)) 0
             (ascii ''http://localhost:3000'') 5 = (Raises read_timeout, 1)"
    by (simp add: first_then_def first_then_get_def)
  have n: "\<not> isinstance read_timeout ConnectionError"
    by (simp add: read_timeout_def isinstance_def)
  have t: "isinstance read_timeout Timeout"
    by (simp add: read_timeout_def isinstance_def)
  have r: "requested (fst (snd (for_loop (first_then (Raises read_timeout) (Returns pong_response)) 0
                 [ascii ''http://localhost:3000'', ascii ''http://localhost:3000/ping''])))
       = [(ascii ''http://localhost:3000'', 5), (ascii ''http://localhost:3000/ping'', 5)]"
    by (simp add: loop_body_def try_block_def first_then_def first_then_get_def
          matching_clause_def read_timeout_def isinstance_def requested_def pong_response_def)
  show ?thesis
    using silent_peer_prints_timeout [OF g n t, of 0 "[]"] r by (simp add: ascii_def)
qed




section \<open>Responses\<close>

text \<open>
  C5. When the request returns a response whose text is longer than 200 characters, the
  content line carries exactly the first 200 characters of the text: the preview is the
  text cut after its 200th character.
\<close>

theorem long_body_preview_is_first_200:
  assumes "requests_get rt w url 5 = (Returns r, w')"
    and "200 < length (response_text r)"
  shows "loop_body rt w url =
           (None,
            [Print (testing_line url), Request url 5, Print (status_line r),
             Print (headers_line rt r),
             Print (ascii ''  Content (first 200 chars): '' @ take 200 (response_text r)),
             Print [], Print []],
            w')
       \<and> length (take 200 (response_text r)) = 200
       \<and> (\<exists>rest. response_text r = take 200 (response_text r) @ rest \<and> rest \<noteq> [])"
proof -
  have ne: "response_text r \<noteq> []"
    using assms(2) by auto
  have b: "loop_body rt w url =
           (None,
            [Print (testing_line url), Request url 5, Print (status_line r),
             Print (headers_line rt r),
             Print (ascii ''  Content (first 200 chars): '' @ take 200 (response_text r)),
             Print [], Print []],
            w')"
    using loop_body_returns [OF assms(1)] ne by (simp add: content_line_def)
  have l: "length (take 200 (response_text r)) = 200"
    using assms(2) by simp
  have "response_text r = take 200 (response_text r) @ drop 200 (response_text r)"
    by simp
  moreover have "drop 200 (response_text r) \<noteq> []"
    using assms(2) by simp
  ultimately have e: "\<exists>rest. response_text r = take 200 (response_text r) @ rest \<and> rest \<noteq> []"
    by blast
  show ?thesis
    using b l e by blast
qed

theorem long_body_preview_is_first_200_witness:
  "200 < length (response_text long_response)
   \<and> printed (fst (snd (loop_body (always (Returns long_response)) () (ascii ''http://localhost:3000''))))
       ! 3 = ascii ''  Content (first 200 chars): '' @ replicate 200 97"
proof -
  have g: "requests_get (always (Returns long_response)) () (ascii ''http://localhost:3000'') 5
             = (Returns long_response, ())"
    by (simp add: always_def)
  have h: "200 < length (response_text long_response)"
    by (simp add: long_response_def)
  have t: "take 200 (response_text long_response) = replicate 200 97"
    by (simp add: long_response_def)
  show ?thesis
    using long_body_preview_is_first_200 [OF g h] h t
    by (simp add: printed_def)
qed

text \<open>
  C6. When the request returns a response with status 200 and text \<open>pong\<close>, the iteration
  prints the line for the URL, the status 200, the headers as a dictionary, the content
  \<open>pong\<close> and two blank lines, and ends normally.
\<close>

theorem pong_prints_status_200_and_pong:
  assumes "requests_get rt w url 5 = (Returns r, w')"
    and "status_code r = 200"
    and "response_text r = ascii ''pong''"
  shows "fst (loop_body rt w url) = None
       \<and> printed (fst (snd (loop_body rt w url))) =
           [ascii ''Testing '' @ url @ ascii ''...'',
            ascii ''  Status: 200'',
            ascii ''  Headers: '' @ repr_dict rt (headers r),
            ascii ''  Content (first 200 chars): pong'',
            [], []]"
proof -
  have ne: "response_text r \<noteq> []"
    using assms(3) by (simp add: ascii_def)
  have s: "status_line r = ascii ''  Status: 200''"
    using assms(2) str_int_200 by (simp add: status_line_def ascii_def)
  have c: "content_line r = ascii ''  Content (first 200 chars): pong''"
    using assms(3) by (simp add: content_line_def ascii_def)
  show ?thesis
    using loop_body_returns [OF assms(1)] ne s c
    by (simp add: printed_def testing_line_def headers_line_def)
qed

theorem pong_prints_status_200_and_pong_witness:
  "printed (fst (snd (loop_body dev_rt () (ascii ''http://localhost:3000/ping'')))) =
     [ascii ''Testing http://localhost:3000/ping...'',
      ascii ''  Status: 200'',
      ascii ''  Headers: {'' @ [39] @ ascii ''Content-Type'' @ [39] @ ascii '': '' @ [39]
        @ ascii ''text/plain'' @ [39] @ ascii ''}'',
      ascii ''  Content (first 200 chars): pong'',
      [], []]"
proof -
  have g: "requests_get dev_rt () (ascii ''http://localhost:3000/ping'') 5
             = (Returns pong_response, ())"
    by (simp add: dev_rt_def dev_get_def ascii_def)
  have s: "status_code pong_response = 200"
    by (simp add: pong_response_def)
  have t: "response_text pong_response = ascii ''pong''"
    by (simp add: pong_response_def)
  have h: "repr_dict dev_rt (headers pong_response) =
             ascii ''{'' @ [39] @ ascii ''Content-Type'' @ [39] @ ascii '': '' @ [39]
               @ ascii ''text/plain'' @ [39] @ ascii ''}''"
    by (simp add: dev_rt_def pong_response_def plain_repr_def quoted_def ascii_def)
  show ?thesis
    using pong_prints_status_200_and_pong [OF g s t] h
    by (simp add: ascii_def)
qed

section \<open>The whole run\<close>

lemma main_exit_0:
  "fst (for_loop rt w urls_to_test) = None \<Longrightarrow> fst (main rt w) = Exit_0"
  by (cases "for_loop rt w urls_to_test") (simp add: main_def test_server_def)

lemma main_uncaught:
  "fst (for_loop rt w urls_to_test) = Some e \<Longrightarrow> fst (main rt w) = Uncaught e"
  by (cases "for_loop rt w urls_to_test") (simp add: main_def test_server_def)








text \<open>
  C4, as the code has it. When every exception that a request raises derives from
  \<open>Exception\<close>, whatever the outcomes are otherwise, the loop ends normally for any list
  of targets, one request has been sent to every target in order, and, for the list of
  the script, the process ends with exit status 0. The claim says it of every outcome; the
  counterexample after the witness is an outcome for which it fails.
\<close>

theorem run_completes_when_failures_are_Exceptions:
  assumes "\<forall>e. Raises e \<in> set (outcomes rt w urls) \<longrightarrow> isinstance e Exception"
  shows "fst (for_loop rt w urls) = None
       \<and> map fst (requested (fst (snd (for_loop rt w urls)))) = urls
       \<and> (urls = urls_to_test \<longrightarrow> fst (main rt w) = Exit_0)"
proof -
  have f: "for_loop rt w urls =
           (None,
            concat (map (\<lambda>(u, oc). iteration_events rt u oc) (zip urls (outcomes rt w urls))),
            snd (snd (for_loop rt w urls)))"
    using for_loop_events [OF assms] .
  have n: "fst (for_loop rt w urls) = None"
    using f by (metis fst_conv)
  have t: "fst (snd (for_loop rt w urls)) =
           concat (map (\<lambda>(u, oc). iteration_events rt u oc) (zip urls (outcomes rt w urls)))"
    using f by (metis fst_conv snd_conv)
  have "requested (fst (snd (for_loop rt w urls))) = map (\<lambda>u. (u, 5)) urls"
    using requested_concat_iterations [of "outcomes rt w urls" urls rt] length_outcomes [of rt w urls] t
    by simp
  then have r: "map fst (requested (fst (snd (for_loop rt w urls)))) = urls"
    by (simp add: comp_def)
  have m: "urls = urls_to_test \<longrightarrow> fst (main rt w) = Exit_0"
    using n main_exit_0 [of rt w] by blast
  show ?thesis
    using n r m by blast
qed

theorem run_completes_when_failures_are_Exceptions_witness:
  "fst (for_loop dev_rt () urls_to_test) = None
   \<and> map fst (requested (fst (snd (for_loop dev_rt () urls_to_test)))) = urls_to_test
   \<and> fst (main dev_rt ()) = Exit_0"
proof -
  have h: "\<forall>e. Raises e \<in> set (outcomes dev_rt () urls_to_test) \<longrightarrow> isinstance e Exception"
    by (simp add: urls_to_test_def dev_rt_def dev_get_def ascii_def connection_refused_def
          isinstance_def)
  show ?thesis
    using run_completes_when_failures_are_Exceptions [OF h] by blast
qed

text \<open>
  The claim C4 fails as stated: when the first target answers and the second request is
  interrupted (\<open>KeyboardInterrupt\<close> derives from \<open>BaseException\<close> only), no clause
  catches the exception, the process ends with it uncaught instead of exit status 0, and
  the last three targets are never requested.
\<close>

theorem interrupt_aborts_run_counterexample:
  "fst (main (first_then (Returns pong_response) (Raises keyboard_interrupt)) 0)
     = Uncaught keyboard_interrupt
   \<and> fst (main (first_then (Returns pong_response) (Raises keyboard_interrupt)) 0) \<noteq> Exit_0
   \<and> requested (fst (snd (main (first_then (Returns pong_response) (Raises keyboard_interrupt)) 0)))
     = [(ascii ''http://localhost:3000'', 5), (ascii ''http://localhost:3000/ping'', 5)]"
  by (simp add: main_def test_server_def urls_to_test_def loop_body_def try_block_def
        first_then_def first_then_get_def matching_clause_def keyboard_interrupt_def
        isinstance_def requested_def pong_response_def)




text \<open>
  C10. The last clause, \<open>except Exception\<close>, catches only instances of \<open>Exception\<close>.
  When the targets before \<open>u\<close> have been handled and the request to \<open>u\<close> raises an
  exception that does not derive from \<open>Exception\<close> (and so is an instance of neither
  \<open>requests.exceptions.ConnectionError\<close> nor \<open>requests.exceptions.Timeout\<close>, which
  are subclasses of \<open>Exception\<close>), no clause matches: the exception leaves the loop
  after the line for \<open>u\<close> and the request to it, nothing is printed or requested for
  the targets after \<open>u\<close>, and when the list is that of the script the process ends with
  the exception uncaught.
\<close>

theorem exception_outside_Exception_leaves_the_run:
  assumes "for_loop rt w pre = (None, evs, w1)"
    and "requests_get rt w1 u 5 = (Raises e, w2)"
    and "\<not> isinstance e Exception"
    and "\<not> isinstance e ConnectionError"
    and "\<not> isinstance e Timeout"
  shows "matching_clause e = None
       \<and> for_loop rt w (pre @ u # post) =
           (Some e, evs @ [Print (ascii ''Testing '' @ u @ ascii ''...''), Request u 5], w2)
       \<and> (pre @ u # post = urls_to_test \<longrightarrow> fst (main rt w) = Uncaught e)
       \<and> (\<forall>x. matching_clause x = Some Except_Exception \<longrightarrow> isinstance x Exception)"
proof -
  have c: "matching_clause e = None"
    using assms(3,4,5) by (simp add: matching_clause_def)
  have b: "loop_body rt w1 u =
             (Some e, [Print (ascii ''Testing '' @ u @ ascii ''...''), Request u 5], w2)"
    using loop_body_uncaught [OF assms(2) c] by (simp add: line_texts)
  have s: "for_loop rt w1 (u # post) =
             (Some e, [Print (ascii ''Testing '' @ u @ ascii ''...''), Request u 5], w2)"
    by (simp only: for_loop.simps b prod.case option.case)
  have f: "for_loop rt w (pre @ u # post) =
             (Some e, evs @ [Print (ascii ''Testing '' @ u @ ascii ''...''), Request u 5], w2)"
    using for_loop_append [OF assms(1), of "u # post"] by (simp only: s prod.case)
  have m: "pre @ u # post = urls_to_test \<longrightarrow> fst (main rt w) = Uncaught e"
    using f main_uncaught [of rt w e] by (metis fst_conv)
  have o: "\<forall>x. matching_clause x = Some Except_Exception \<longrightarrow> isinstance x Exception"
    by (simp add: matching_clause_def split: if_splits)
  show ?thesis
    using c f m o by blast
qed

theorem exception_outside_Exception_leaves_the_run_witness:
  "for_loop (first_then (Raises connection_refused) (Raises system_exit)) 0 urls_to_test =
     (Some system_exit,
      [Print (ascii ''Testing http://localhost:3000...''),
       Request (ascii ''http://localhost:3000'') 5,
       Print (ascii ''  '' @ [0x274C] @ ascii '' Connection refused''),
       Print [],
       Print (ascii ''Testing http://localhost:3000/ping...''),
       Request (ascii ''http://localhost:3000/ping'') 5],
      2)
   \<and> fst (main (first_then (Raises connection_refused) (Raises system_exit)) 0)
       = Uncaught system_exit"
proof -
  have p: "for_loop (first_then (Raises connection_refused) (Raises system_exit)) 0
             [ascii ''http://localhost:3000''] =
           (None,
            [Print (ascii ''Testing http://localhost:3000...''),
             Request (ascii ''http://localhost:3000'') 5,
             Print (ascii ''  '' @ [0x274C] @ ascii '' Connection refused''),
             Print []],
            1)"
    by (simp add: loop_body_def try_block_def first_then_def first_then_get_def
          matching_clause_def connection_refused_def isinstance_def line_texts ascii_def)
  have g: "requests_get (first_then (Raises connection_refused) (Raises system_exit)) 1
             (ascii ''http://localhost:3000/ping'') 5 = (Raises system_exit, 2)"
    by (simp add: first_then_def first_then_get_def)
  have n1: "\<not> isinstance system_exit Exception"
    by (simp add: system_exit_def isinstance_def)
  have n2: "\<not> isinstance system_exit ConnectionError"
    by (simp add: system_exit_def isinstance_def)
  have n3: "\<not> isinstance system_exit Timeout"
    by (simp add: system_exit_def isinstance_def)
  have u: "[ascii ''http://localhost:3000''] @ ascii ''http://localhost:3000/ping''
             # [ascii ''http://localhost:3000/api/health'', ascii ''http://localhost:3001'',
                ascii ''http://localhost:3001/ping''] = urls_to_test"
    by (simp add: urls_to_test_def)
  show ?thesis
    using exception_outside_Exception_leaves_the_run
            [OF p g n1 n2 n3,
             of "[ascii ''http://localhost:3000/api/health'', ascii ''http://localhost:3001'',
                  ascii ''http://localhost:3001/ping'']"]
    unfolding u by (simp add: ascii_def)
qed

end
